theory Spec2Isabelle
  imports Main "HOL-Library.Word"
begin

section \<open>Data model of \<open>src/lua/modules/modules.cpp\<close>\<close>

text \<open>
  \<open>Module_ptr\<close> is a shared pointer to a \<open>Module\<close> object. The registry stores pointers,
  and \<open>registerEvent\<close> / \<open>copyEvent\<close> / \<open>clearEvent\<close> mutate the objects behind them, so
  objects live in an explicit store indexed by address. A \<open>LuaScriptInterface*\<close> is an
  address too; the null pointer is \<open>None\<close>.
\<close>

type_synonym addr = nat
type_synonym iface = nat
type_synonym NetworkMessage = "8 word list"

datatype ModuleType_t = MODULE_TYPE_RECVBYTE | MODULE_TYPE_NONE

text \<open>
  Modelled from the spec: the class declarations (\<open>modules.hpp\<close>, and the base class
  \<open>Event\<close> with its members \<open>scripted\<close>, \<open>scriptId\<close>, \<open>scriptInterface\<close>) are not under
  src/. The fields are the ones \<open>modules.cpp\<close> reads and writes, with the widths the spec
  gives: an unsigned 8-bit opcode, a signed 16-bit delay (read with \<open>sint\<close>), a script id
  where 0 means unbound.
\<close>

record Module =
  scripted :: bool
  scriptId :: "32 word"
  scriptInterface :: "iface option"
  type :: ModuleType_t
  recvbyte :: "8 word"
  delay :: "16 word"
  loaded :: bool

text \<open>
  A \<open>pugi::xml_attribute\<close> is seen through the three decoders the code calls on it;
  pugixml is a library outside this repository, so what it decodes is input. A node is its
  attribute lookup: \<open>node.attribute("type")\<close> is \<open>node ''type''\<close>, a missing attribute is
  \<open>None\<close>.
\<close>

record xml_attribute =
  as_string :: string
  as_int :: "32 word"
  as_uint :: "32 word"

type_synonym xml_node = "string \<Rightarrow> xml_attribute option"

text \<open>
  Modelled from the spec: \<open>Player::canRunModule\<close>, \<open>Player::setModuleDelay\<close> and
  \<open>Player::getName\<close> (\<open>player.hpp\<close>) are not under src/. The spec: arming sets the opcode's
  next-allowed timestamp to now + \<open>delay_ms\<close>; the throttle permits when there is no
  timestamp or it has been reached (scenario S3: delay 1000, armed at 0, permitted again
  at 1000).
\<close>

record Player =
  name :: string
  moduleDelayMap :: "8 word \<rightharpoonup> int"

definition canRunModule :: "Player \<Rightarrow> 8 word \<Rightarrow> int \<Rightarrow> bool" where
  "canRunModule player byteortype now =
     (case moduleDelayMap player byteortype of
        None \<Rightarrow> True
      | Some t \<Rightarrow> t \<le> now)"

definition setModuleDelay :: "Player \<Rightarrow> 8 word \<Rightarrow> 16 word \<Rightarrow> int \<Rightarrow> Player" where
  "setModuleDelay player byteortype d now =
     player\<lparr>moduleDelayMap := (moduleDelayMap player)(byteortype \<mapsto> now + sint d)\<rparr>"

text \<open>The values the bridge pushes on the Lua stack, and a record of each script call.\<close>

datatype userdata_ref = PlayerRef "32 word" | NetworkMessageRef NetworkMessage

datatype metatable = Metatable string | WeakMetatable string

datatype lua_value =
    Function "32 word"
  | Userdata userdata_ref "metatable option"
  | Number nat

record script_call =
  call_interface :: iface
  call_env :: "32 word \<times> iface option"
  call_stack :: "lua_value list"
  call_params :: nat

text \<open>
  The process state the file works on: the \<open>Module\<close> objects, the registry's
  \<open>recvbyteList\<close> (a \<open>std::map\<close> from opcode to \<open>Module_ptr\<close>), the registry's Lua state
  (counted by how many times it was initialised), the error log, the players of
  \<open>g_game()\<close>, the clock, the pool of script environments and the script calls made so far.
\<close>

record world =
  heap :: "addr \<Rightarrow> Module"
  recvbyteList :: "8 word \<rightharpoonup> addr"
  luaStateInits :: nat
  logger :: "string list"
  players :: "32 word \<rightharpoonup> Player"
  OTSYS_TIME :: int
  scriptEnvIndex :: nat
  scriptEnvPool :: nat
  calls :: "script_call list"

datatype fault = NullPointerDereference

section \<open>Helpers that are not under src/\<close>

text \<open>
  Modelled from the spec: \<open>asLowerCaseString\<close> (\<open>utils/tools\<close>) is not under src/. The spec:
  the type value is matched case-insensitively, so ASCII upper-case letters are folded to
  lower case and every other character is kept.
\<close>

definition tolower :: "char \<Rightarrow> char" where
  "tolower c =
     (case map_of (zip ''ABCDEFGHIJKLMNOPQRSTUVWXYZ'' ''abcdefghijklmnopqrstuvwxyz'') c of
        Some l \<Rightarrow> l
      | None \<Rightarrow> c)"

definition asLowerCaseString :: "string \<Rightarrow> string" where
  "asLowerCaseString s = map tolower s"

text \<open>
  Modelled from the spec: \<open>LuaScriptInterface\<close> is not under src/. The spec: a bounded pool
  of per-call script environments; acquisition fails when the pool is exhausted; the
  runtime releases the environment when the call completes; \<open>reInitState\<close> reinitialises
  the runtime. A script's body is opaque: a call is recorded, not run.
\<close>

definition reserveScriptEnv :: "world \<Rightarrow> world option" where
  "reserveScriptEnv w =
     (if scriptEnvIndex w < scriptEnvPool w
      then Some (w\<lparr>scriptEnvIndex := Suc (scriptEnvIndex w)\<rparr>)
      else None)"

definition callVoidFunction ::
  "iface \<Rightarrow> 32 word \<times> iface option \<Rightarrow> nat \<Rightarrow> lua_value list \<Rightarrow> world \<Rightarrow> world" where
  "callVoidFunction si env params L w =
     w\<lparr>calls := calls w @
          [\<lparr>call_interface = si, call_env = env, call_stack = rev L, call_params = params\<rparr>],
       scriptEnvIndex := scriptEnvIndex w - 1\<rparr>"

definition reInitState :: "world \<Rightarrow> world" where
  "reInitState w = w\<lparr>luaStateInits := Suc (luaStateInits w)\<rparr>"

text \<open>The Lua stack of one call, top first.\<close>

definition pushFunction :: "32 word \<Rightarrow> lua_value list \<Rightarrow> lua_value list" where
  "pushFunction functionId L = Function functionId # L"

definition pushUserdata :: "userdata_ref \<Rightarrow> lua_value list \<Rightarrow> lua_value list" where
  "pushUserdata r L = Userdata r None # L"

fun setMetatable :: "string \<Rightarrow> lua_value list \<Rightarrow> lua_value list" where
  "setMetatable n (Userdata r _ # L) = Userdata r (Some (Metatable n)) # L"
| "setMetatable n L = L"

fun setWeakMetatable :: "string \<Rightarrow> lua_value list \<Rightarrow> lua_value list" where
  "setWeakMetatable n (Userdata r _ # L) = Userdata r (Some (WeakMetatable n)) # L"
| "setWeakMetatable n L = L"

definition lua_pushnumber :: "nat \<Rightarrow> lua_value list \<Rightarrow> lua_value list" where
  "lua_pushnumber n L = Number n # L"

text \<open>
  Modelled from the spec: \<open>pushUserdata\<close>, \<open>setMetatable\<close> and \<open>setWeakMetatable\<close>
  (\<open>LuaScriptInterface\<close>) are not under src/. The spec (4.2, item 4): a strong userdata, the
  one given its metatable by \<open>setMetatable\<close>, is a handle that participates in shared
  ownership of the object; a weak userdata, the one given its metatable by
  \<open>setWeakMetatable\<close>, is a handle that does not extend the object's lifetime. The script
  shares ownership of an object when a value of the call's stack does, and an object is
  live while one of its other owners or the script holds it.
\<close>

fun shares_ownership :: "lua_value \<Rightarrow> userdata_ref \<Rightarrow> bool" where
  "shares_ownership (Userdata r (Some (Metatable n))) x = (r = x)"
| "shares_ownership v x = False"

definition script_owns :: "script_call \<Rightarrow> userdata_ref \<Rightarrow> bool" where
  "script_owns c x = list_ex (\<lambda>v. shares_ownership v x) (call_stack c)"

definition live :: "userdata_ref list \<Rightarrow> script_call \<Rightarrow> userdata_ref \<Rightarrow> bool" where
  "live owners c x = (List.member owners x \<or> script_owns c x)"

section \<open>The handler record: class \<open>Module\<close>\<close>

text \<open>
  The constructor (lines 97-98) sets \<open>type\<close> and \<open>loaded\<close> and passes the interface to
  \<open>Event\<close>; it does not initialise \<open>recvbyte\<close> and \<open>delay\<close>, whose start values are the
  parameters \<open>r0\<close> and \<open>d0\<close>.
\<close>

definition Module_ctor :: "iface option \<Rightarrow> 8 word \<Rightarrow> 16 word \<Rightarrow> Module" where
  "Module_ctor interface r0 d0 =
     \<lparr>scripted = False, scriptId = 0, scriptInterface = interface,
      type = MODULE_TYPE_NONE, recvbyte = r0, delay = d0, loaded = False\<rparr>"

text \<open>
  \<open>Module::configureEvent\<close> (lines 100-131): the result, the object and the error log.
  The two \<open>static_cast\<close>s narrow a 32-bit value to 8 and to 16 bits: they keep the low
  bits (\<open>ucast\<close>), and the 16-bit result is read as two's complement.
\<close>

definition configureEvent ::
  "xml_node \<Rightarrow> Module \<Rightarrow> string list \<Rightarrow> bool \<times> Module \<times> string list" where
  "configureEvent node this log =
     (let this = this\<lparr>delay := 0\<rparr> in
      case node ''type'' of
        None \<Rightarrow> (False, this, log @ [''Missing type for module.''])
      | Some typeAttribute \<Rightarrow>
          let tmpStr = asLowerCaseString (as_string typeAttribute) in
          if tmpStr = ''recvbyte'' then
            (case node ''byte'' of
               None \<Rightarrow> (False, this, log @ [''Missing byte for module typed recvbyte.''])
             | Some byteAttribute \<Rightarrow>
                 let this = this\<lparr>recvbyte := ucast (as_int byteAttribute),
                                 type := MODULE_TYPE_RECVBYTE\<rparr>;
                     this = (case node ''delay'' of
                               None \<Rightarrow> this
                             | Some delayAttribute \<Rightarrow>
                                 this\<lparr>delay := ucast (as_uint delayAttribute)\<rparr>)
                 in (True, this\<lparr>loaded := True\<rparr>, log))
          else (False, this, log @ [''Invalid type for module.'']))"

definition getScriptEventName :: "Module \<Rightarrow> string" where
  "getScriptEventName this =
     (case type this of
        MODULE_TYPE_RECVBYTE \<Rightarrow> ''onRecvbyte''
      | MODULE_TYPE_NONE \<Rightarrow> [])"

definition copyEvent :: "Module \<Rightarrow> Module \<Rightarrow> Module" where
  "copyEvent this module =
     this\<lparr>scriptId := scriptId module,
          scriptInterface := scriptInterface module,
          scripted := scripted module,
          loaded := loaded module\<rparr>"

definition clearEvent :: "Module \<Rightarrow> Module" where
  "clearEvent this =
     this\<lparr>scriptId := 0, scriptInterface := None, scripted := False, loaded := False\<rparr>"

text \<open>
  \<open>Module::executeOnRecvbyte\<close> (lines 156-177), the bridge. With a null
  \<open>scriptInterface\<close> the call \<open>scriptInterface->getLuaState()\<close> dereferences a null pointer.
\<close>

definition Module_executeOnRecvbyte ::
  "Module \<Rightarrow> 32 word \<Rightarrow> Player \<Rightarrow> NetworkMessage \<Rightarrow> world \<Rightarrow> fault + world" where
  "Module_executeOnRecvbyte this playerId player msg w =
     (case reserveScriptEnv w of
        None \<Rightarrow>
          Inr (w\<lparr>logger := logger w @
                 [''Call stack overflow. Too many lua script calls being nested '' @
                  name player]\<rparr>)
      | Some w \<Rightarrow>
          (case scriptInterface this of
             None \<Rightarrow> Inl NullPointerDereference
           | Some si \<Rightarrow>
               let L = [];
                   L = pushFunction (scriptId this) L;
                   L = pushUserdata (PlayerRef playerId) L;
                   L = setMetatable ''Player'' L;
                   L = pushUserdata (NetworkMessageRef msg) L;
                   L = setWeakMetatable ''NetworkMessage'' L;
                   L = lua_pushnumber (unat (recvbyte this)) L
               in Inr (callVoidFunction si (scriptId this, scriptInterface this) 3 L w)))"

section \<open>The registry: class \<open>Modules\<close>\<close>

text \<open>A \<open>std::map\<close> is iterated in ascending key order.\<close>

definition entries :: "(8 word \<rightharpoonup> addr) \<Rightarrow> (8 word \<times> addr) list" where
  "entries m = List.map_filter (\<lambda>k. map_option (Pair k) (m k)) (map word_of_nat [0..<256])"

text \<open>\<open>Modules::clear\<close> (lines 21-29).\<close>

definition clear :: "world \<Rightarrow> world" where
  "clear w =
     (let w = fold (\<lambda>it w. w\<lparr>heap := (heap w)(snd it := clearEvent (heap w (snd it)))\<rparr>)
                   (entries (recvbyteList w)) w
      in reInitState w)"

text \<open>\<open>Modules::getEventByRecvbyte\<close> (lines 71-79).\<close>

definition getEventByRecvbyte :: "8 word \<Rightarrow> bool \<Rightarrow> world \<Rightarrow> addr option" where
  "getEventByRecvbyte rb force w =
     (case recvbyteList w rb of
        Some it_second \<Rightarrow>
          if \<not> force \<or> loaded (heap w it_second) then Some it_second else None
      | None \<Rightarrow> None)"

text \<open>
  \<open>Modules::registerEvent\<close> (lines 46-69); \<open>event\<close> points to the \<open>Module\<close> to register. The
  node argument is unnamed and unused in the source and is left out.
\<close>

definition registerEvent :: "addr \<Rightarrow> world \<Rightarrow> bool \<times> world" where
  "registerEvent event w =
     (let module = event in
      if type (heap w module) = MODULE_TYPE_NONE then
        (False, w\<lparr>logger := logger w @ [''Trying to register event without type!'']\<rparr>)
      else
        (case getEventByRecvbyte (recvbyte (heap w module)) False w of
           Some oldModule \<Rightarrow>
             if \<not> loaded (heap w oldModule) \<and>
                type (heap w oldModule) = type (heap w module)
             then (True, w\<lparr>heap := (heap w)
                      (oldModule := copyEvent (heap w oldModule) (heap w module))\<rparr>)
             else (False, w)
         | None \<Rightarrow>
             (case recvbyteList w (recvbyte (heap w module)) of
                Some it_second \<Rightarrow>
                  (True, w\<lparr>recvbyteList :=
                             (recvbyteList w)(recvbyte (heap w module) \<mapsto> module)\<rparr>)
              | None \<Rightarrow>
                  (True, w\<lparr>recvbyteList :=
                             (recvbyteList w)(recvbyte (heap w module) \<mapsto> module)\<rparr>))))"

text \<open>
  \<open>Modules::executeOnRecvbyte\<close> (lines 81-95): the loop over \<open>recvbyteList\<close>, then the
  function itself.
\<close>

fun executeOnRecvbyte_loop ::
  "(8 word \<times> addr) list \<Rightarrow> 32 word \<Rightarrow> Player \<Rightarrow> NetworkMessage \<Rightarrow> 8 word \<Rightarrow> world
     \<Rightarrow> fault + world" where
  "executeOnRecvbyte_loop [] playerId player msg byte w = Inr w"
| "executeOnRecvbyte_loop (it # rest) playerId player msg byte w =
     (let module = heap w (snd it) in
      if type module = MODULE_TYPE_RECVBYTE \<and> recvbyte module = byte \<and>
         canRunModule player (recvbyte module) (OTSYS_TIME w)
      then
        let player' = setModuleDelay player (recvbyte module) (delay module) (OTSYS_TIME w);
            w = w\<lparr>players := (players w)(playerId \<mapsto> player')\<rparr>
        in Module_executeOnRecvbyte module playerId player' msg w
      else executeOnRecvbyte_loop rest playerId player msg byte w)"

definition executeOnRecvbyte ::
  "32 word \<Rightarrow> NetworkMessage \<Rightarrow> 8 word \<Rightarrow> world \<Rightarrow> fault + world" where
  "executeOnRecvbyte playerId msg byte w =
     (case players w playerId of
        None \<Rightarrow> Inr w
      | Some player \<Rightarrow>
          executeOnRecvbyte_loop (entries (recvbyteList w)) playerId player msg byte w)"

section \<open>Notions used to state the properties\<close>

text \<open>
  The registry's own invariant: every stored record sits under its own opcode.
  \<open>registerEvent\<close> inserts a record under \<open>getRecvbyte()\<close>, and neither \<open>copyEvent\<close> nor
  \<open>clearEvent\<close> writes \<open>recvbyte\<close>.
\<close>

definition keys_match :: "world \<Rightarrow> bool" where
  "keys_match w \<longleftrightarrow> (\<forall>k a. recvbyteList w k = Some a \<longrightarrow> recvbyte (heap w a) = k)"

text \<open>The condition of line 89 for the record at address \<open>a\<close>, and lines 90-92 for it.\<close>

definition selects :: "world \<Rightarrow> Player \<Rightarrow> 8 word \<Rightarrow> addr \<Rightarrow> bool" where
  "selects w player byte a \<longleftrightarrow>
     type (heap w a) = MODULE_TYPE_RECVBYTE \<and> recvbyte (heap w a) = byte \<and>
     canRunModule player (recvbyte (heap w a)) (OTSYS_TIME w)"

definition invoke ::
  "addr \<Rightarrow> 32 word \<Rightarrow> Player \<Rightarrow> NetworkMessage \<Rightarrow> world \<Rightarrow> fault + world" where
  "invoke a playerId player msg w =
     (let player' = setModuleDelay player (recvbyte (heap w a)) (delay (heap w a)) (OTSYS_TIME w)
      in Module_executeOnRecvbyte (heap w a) playerId player' msg
           (w\<lparr>players := (players w)(playerId \<mapsto> player')\<rparr>))"

text \<open>Sequences of registry operations.\<close>

datatype operation = RegisterEvent addr | Clear

fun apply_operation :: "operation \<Rightarrow> world \<Rightarrow> world" where
  "apply_operation (RegisterEvent event) w = snd (registerEvent event w)"
| "apply_operation Clear w = clear w"

definition run :: "operation list \<Rightarrow> world \<Rightarrow> world" where
  "run ops w = fold apply_operation ops w"

section \<open>Concrete configurations and states\<close>

text \<open>\<open><module type="RecvByte" byte="10"/>\<close>, the same with \<open>delay="40000"\<close>, and
  \<open><module byte="1"/>\<close> (scenario S6).\<close>

definition node_recvbyte :: xml_node where
  "node_recvbyte =
     [''type'' \<mapsto> \<lparr>as_string = ''RecvByte'', as_int = 0, as_uint = 0\<rparr>,
      ''byte'' \<mapsto> \<lparr>as_string = ''10'', as_int = 10, as_uint = 10\<rparr>]"

definition node_delay_40000 :: xml_node where
  "node_delay_40000 =
     node_recvbyte(''delay'' \<mapsto> \<lparr>as_string = ''40000'', as_int = 40000, as_uint = 40000\<rparr>)"

definition node_no_type :: xml_node where
  "node_no_type = [''byte'' \<mapsto> \<lparr>as_string = ''1'', as_int = 1, as_uint = 1\<rparr>]"

text \<open>
  A server at start-up: fresh records only, an empty registry, player 42 online and not
  throttled, sixteen free script environments.
\<close>

definition w_start :: world where
  "w_start =
     \<lparr>heap = (\<lambda>a. Module_ctor (Some 0) 0 0), recvbyteList = Map.empty, luaStateInits = 1,
      logger = [], players = [42 \<mapsto> \<lparr>name = ''Player'', moduleDelayMap = Map.empty\<rparr>],
      OTSYS_TIME = 0, scriptEnvIndex = 0, scriptEnvPool = 16, calls = []\<rparr>"

text \<open>The record at address 0 configured from \<open>node_recvbyte\<close>, then registered, then
  the registry cleared.\<close>

definition w_configured :: world where
  "w_configured =
     w_start\<lparr>heap := (heap w_start)
        (0 := fst (snd (configureEvent node_recvbyte (heap w_start 0) [])))\<rparr>"

definition w_registered :: world where
  "w_registered = snd (registerEvent 0 w_configured)"

definition w_cleared :: world where
  "w_cleared = clear w_registered"

text \<open>
  Scenario S7: a bound handler for opcode 9 with delay 1000, and the only script
  environment of the pool in use. \<open>w_throttled\<close> is that state with the throttle of
  player 42 armed for opcode 9 and the overflow logged.
\<close>

definition w_exhausted :: world where
  "w_exhausted =
     \<lparr>heap = (\<lambda>a. \<lparr>scripted = True, scriptId = 1, scriptInterface = Some 0,
                     type = MODULE_TYPE_RECVBYTE, recvbyte = 9, delay = 1000, loaded = True\<rparr>),
      recvbyteList = [9 \<mapsto> 0], luaStateInits = 1, logger = [],
      players = [42 \<mapsto> \<lparr>name = ''Player'', moduleDelayMap = Map.empty\<rparr>],
      OTSYS_TIME = 0, scriptEnvIndex = 1, scriptEnvPool = 1, calls = []\<rparr>"

definition w_throttled :: world where
  "w_throttled =
     w_exhausted\<lparr>players := [42 \<mapsto> \<lparr>name = ''Player'', moduleDelayMap = [9 \<mapsto> 1000]\<rparr>],
       logger := [''Call stack overflow. Too many lua script calls being nested Player'']\<rparr>"

text \<open>The state of scenario S7 with the script environment free again.\<close>

definition w_bound :: world where
  "w_bound = w_exhausted\<lparr>scriptEnvIndex := 0\<rparr>"

text \<open>
  Scenario S4: an unbound placeholder for opcode 7 is stored at address 0; the record at
  address 1 is a bound handler for the same opcode.
\<close>

definition w_two_pass :: world where
  "w_two_pass =
     w_start\<lparr>heap := (heap w_start)
        (0 := \<lparr>scripted = False, scriptId = 0, scriptInterface = None,
               type = MODULE_TYPE_RECVBYTE, recvbyte = 7, delay = 250, loaded = False\<rparr>,
         1 := \<lparr>scripted = True, scriptId = 5, scriptInterface = Some 0,
               type = MODULE_TYPE_RECVBYTE, recvbyte = 7, delay = 0, loaded = True\<rparr>),
       recvbyteList := [7 \<mapsto> 0]\<rparr>"

section \<open>Iterating over the registry\<close>

lemma all_opcodes: "(k :: 8 word) \<in> set (map word_of_nat [0..<256])"
proof -
  have "unat k < 256" using unsigned_less [of k] by simp
  moreover have "word_of_nat (unat k) = k" by simp
  ultimately show ?thesis
    by (metis (no_types) atLeast0LessThan image_eqI lessThan_iff list.set_map set_upt)
qed

lemma entries_iff: "(k, a) \<in> set (entries m) \<longleftrightarrow> m k = Some a"
proof -
  have "(k, a) \<in> set (entries m) \<longleftrightarrow>
        (\<exists>x \<in> set (map word_of_nat [0..<256]).
            m x \<noteq> None \<and> (k, a) = the (map_option (Pair x) (m x)))"
    unfolding entries_def List.map_filter_def by (auto simp: image_iff)
  also have "\<dots> \<longleftrightarrow> m k = Some a"
    using all_opcodes [of k] by auto
  finally show ?thesis .
qed

lemma stored_iff: "a \<in> snd ` set (entries m) \<longleftrightarrow> (\<exists>k. m k = Some a)"
proof
  assume "a \<in> snd ` set (entries m)"
  then obtain k where "(k, a) \<in> set (entries m)" by auto
  then show "\<exists>k. m k = Some a" by (auto simp: entries_iff)
next
  assume "\<exists>k. m k = Some a"
  then obtain k where "(k, a) \<in> set (entries m)" by (auto simp: entries_iff)
  then show "a \<in> snd ` set (entries m)" by force
qed

section \<open>\<open>clear\<close> in closed form\<close>

lemma clear_fold_world:
  "fold (\<lambda>it w. w\<lparr>heap := (heap w)(snd it := clearEvent (heap w (snd it)))\<rparr>) xs w =
     w\<lparr>heap := fold (\<lambda>it h. h(snd it := clearEvent (h (snd it)))) xs (heap w)\<rparr>"
  by (induction xs arbitrary: w) simp_all

lemma clear_fold_heap:
  "fold (\<lambda>it h. h(snd it := clearEvent (h (snd it)))) xs h a =
     (if a \<in> snd ` set xs then clearEvent (h a) else h a)"
  by (induction xs arbitrary: h) (auto simp: clearEvent_def)

lemma clear_eq:
  "clear w =
     w\<lparr>heap := (\<lambda>a. if \<exists>k. recvbyteList w k = Some a then clearEvent (heap w a)
                      else heap w a),
       luaStateInits := Suc (luaStateInits w)\<rparr>"
proof -
  have "fold (\<lambda>it h. h(snd it := clearEvent (h (snd it)))) (entries (recvbyteList w)) (heap w) =
        (\<lambda>a. if \<exists>k. recvbyteList w k = Some a then clearEvent (heap w a) else heap w a)"
    by (rule ext) (simp add: clear_fold_heap stored_iff)
  then show ?thesis
    by (simp add: clear_def reInitState_def clear_fold_world)
qed

lemma recvbyteList_clear: "recvbyteList (clear w) = recvbyteList w"
  by (subst clear_eq) simp

section \<open>\<open>registerEvent\<close> by cases\<close>

lemma getEventByRecvbyte_no_force: "getEventByRecvbyte rb False w = recvbyteList w rb"
  by (simp add: getEventByRecvbyte_def split: option.splits)

lemma registerEvent_cases:
  "registerEvent event w =
     (if type (heap w event) = MODULE_TYPE_NONE
      then (False, w\<lparr>logger := logger w @ [''Trying to register event without type!'']\<rparr>)
      else case recvbyteList w (recvbyte (heap w event)) of
        None \<Rightarrow> (True, w\<lparr>recvbyteList := (recvbyteList w)(recvbyte (heap w event) \<mapsto> event)\<rparr>)
      | Some old \<Rightarrow>
          if \<not> loaded (heap w old) \<and> type (heap w old) = type (heap w event)
          then (True, w\<lparr>heap := (heap w)(old := copyEvent (heap w old) (heap w event))\<rparr>)
          else (False, w))"
  by (simp add: registerEvent_def getEventByRecvbyte_no_force Let_def split: option.splits)

lemma registerEvent_keeps_entries:
  "recvbyteList w k = Some a \<Longrightarrow> recvbyteList (snd (registerEvent event w)) k = Some a"
  by (auto simp: registerEvent_cases split: option.splits)

lemma run_keeps_entries:
  "recvbyteList w k = Some a \<Longrightarrow> recvbyteList (run ops w) k = Some a"
  unfolding run_def
proof (induction ops arbitrary: w)
  case Nil
  then show ?case by simp
next
  case (Cons op ops)
  have "recvbyteList (apply_operation op w) k = Some a"
    using Cons.prems by (cases op) (simp_all add: registerEvent_keeps_entries recvbyteList_clear)
  then show ?case using Cons.IH by simp
qed

text \<open>The registry operations keep every record under its own opcode.\<close>

lemma keys_match_registerEvent:
  "keys_match w \<Longrightarrow> keys_match (snd (registerEvent event w))"
  by (auto simp: keys_match_def registerEvent_cases copyEvent_def split: option.splits)

lemma keys_match_clear: "keys_match w \<Longrightarrow> keys_match (clear w)"
  unfolding keys_match_def by (subst (1 2) clear_eq) (auto simp: clearEvent_def)

lemma keys_match_run: "keys_match w \<Longrightarrow> keys_match (run ops w)"
  unfolding run_def
proof (induction ops arbitrary: w)
  case Nil
  then show ?case by simp
next
  case (Cons op ops)
  have "keys_match (apply_operation op w)"
    using Cons.prems by (cases op) (simp_all add: keys_match_registerEvent keys_match_clear)
  then show ?case using Cons.IH by simp
qed

section \<open>The dispatch loop as a lookup\<close>

lemma loop_find:
  "executeOnRecvbyte_loop xs playerId player msg byte w =
     (case find (\<lambda>it. selects w player byte (snd it)) xs of
        None \<Rightarrow> Inr w
      | Some it \<Rightarrow> invoke (snd it) playerId player msg w)"
proof (induction xs)
  case Nil
  show ?case by simp
next
  case (Cons it rest)
  have "executeOnRecvbyte_loop (it # rest) playerId player msg byte w =
          (if selects w player byte (snd it) then invoke (snd it) playerId player msg w
           else executeOnRecvbyte_loop rest playerId player msg byte w)"
    by (auto simp: selects_def invoke_def Let_def)
  with Cons show ?case by simp
qed

lemma find_entries:
  assumes "keys_match w"
  shows "find (\<lambda>it. selects w player byte (snd it)) (entries (recvbyteList w)) =
           (case recvbyteList w byte of
              None \<Rightarrow> None
            | Some a \<Rightarrow> if selects w player byte a then Some (byte, a) else None)"
proof -
  let ?P = "\<lambda>it. selects w player byte (snd it)"
  let ?xs = "entries (recvbyteList w)"
  have key: "fst it = byte" if "it \<in> set ?xs" "?P it" for it
  proof -
    obtain k b where it: "it = (k, b)" by (cases it)
    with that(1) have "recvbyteList w k = Some b" by (simp add: entries_iff)
    with assms have "recvbyte (heap w b) = k" by (simp add: keys_match_def)
    moreover from that(2) it have "recvbyte (heap w b) = byte" by (simp add: selects_def)
    ultimately show ?thesis using it by simp
  qed
  have only: "it = (byte, a)" if "it \<in> set ?xs" "?P it" "recvbyteList w byte = Some a" for it a
  proof -
    obtain k b where it: "it = (k, b)" by (cases it)
    with key [OF that(1,2)] have k: "k = byte" by simp
    from that(1) it have "recvbyteList w k = Some b" by (simp add: entries_iff)
    with k that(3) it show ?thesis by simp
  qed
  show ?thesis
  proof (cases "recvbyteList w byte")
    case None
    have "\<not> ?P it" if "it \<in> set ?xs" for it
    proof
      assume "?P it"
      with that have "fst it = byte" by (rule key)
      moreover obtain k b where it: "it = (k, b)" by (cases it)
      moreover from that it have "recvbyteList w k = Some b" by (simp add: entries_iff)
      ultimately show False using None by simp
    qed
    then have "find ?P ?xs = None" by (auto simp: find_None_iff)
    with None show ?thesis by simp
  next
    case (Some a)
    show ?thesis
    proof (cases "selects w player byte a")
      case True
      have "(byte, a) \<in> set ?xs" using Some by (simp add: entries_iff)
      with True have "find ?P ?xs \<noteq> None" by (auto simp: find_None_iff)
      then obtain it where f: "find ?P ?xs = Some it" by auto
      then have "it \<in> set ?xs" "?P it"
        by (auto simp: find_Some_iff)
      then have "it = (byte, a)" using only Some by blast
      with f Some True show ?thesis by simp
    next
      case False
      have "\<not> ?P it" if "it \<in> set ?xs" for it
        using only [OF that _ Some] False by auto
      then have "find ?P ?xs = None" by (auto simp: find_None_iff)
      with Some False show ?thesis by simp
    qed
  qed
qed

text \<open>
  With every record under its own opcode, the scan of lines 87-94 is a direct lookup with
  a kind and throttle check.
\<close>

lemma executeOnRecvbyte_direct:
  assumes "keys_match w"
  shows "executeOnRecvbyte playerId msg byte w =
           (case players w playerId of
              None \<Rightarrow> Inr w
            | Some player \<Rightarrow>
                (case recvbyteList w byte of
                   None \<Rightarrow> Inr w
                 | Some a \<Rightarrow>
                     if selects w player byte a then invoke a playerId player msg w
                     else Inr w))"
  by (simp add: executeOnRecvbyte_def loop_find find_entries [OF assms] split: option.splits)

section \<open>The 16-bit truncation of the delay\<close>

lemma wrap_16:
  fixes v :: int
  assumes "0 \<le> v" "v < 65536"
  shows "(v + 32768) mod 65536 - 32768 = (if v < 32768 then v else v - 65536)"
proof (cases "v < 32768")
  case True
  with assms have "(v + 32768) mod 65536 = v + 32768"
    by (intro mod_pos_pos_trivial) simp_all
  with True show ?thesis by simp
next
  case False
  have e: "v + 32768 = (v - 32768) + 65536" by arith
  have "(v + 32768) mod 65536 = (v - 32768) mod 65536"
    unfolding e by (rule mod_add_self2)
  also have "\<dots> = v - 32768"
    using assms False by (intro mod_pos_pos_trivial) simp_all
  finally show ?thesis using False by simp
qed

lemma sint_ucast_16:
  "sint (ucast (x :: 32 word) :: 16 word) =
     (if uint x mod 65536 < 32768 then uint x mod 65536 else uint x mod 65536 - 65536)"
proof -
  have u: "uint (ucast x :: 16 word) = uint x mod 65536"
    by (simp add: unsigned_ucast_eq take_bit_eq_mod)
  have "sint (ucast x :: 16 word) = signed_take_bit 15 (uint (ucast x :: 16 word))"
    by (simp add: sint_uint)
  also have "\<dots> = (uint x mod 65536 + 32768) mod 65536 - 32768"
    unfolding u by (simp add: signed_take_bit_eq_take_bit_shift take_bit_eq_mod)
  also have "\<dots> =
      (if uint x mod 65536 < 32768 then uint x mod 65536 else uint x mod 65536 - 65536)"
    by (rule wrap_16) simp_all
  finally show ?thesis .
qed

lemma sint_16_range: "- 32768 \<le> sint (d :: 16 word) \<and> sint d < 32768"
  using sint_ge [of d] sint_lt [of d] by simp

section \<open>The concrete states, evaluated\<close>

lemma configured_module:
  "configureEvent node_recvbyte (Module_ctor (Some 0) 0 0) [] =
     (True, \<lparr>scripted = False, scriptId = 0, scriptInterface = Some 0,
             type = MODULE_TYPE_RECVBYTE, recvbyte = 10, delay = 0, loaded = True\<rparr>, [])"
  by (simp add: configureEvent_def node_recvbyte_def Module_ctor_def asLowerCaseString_def
      tolower_def)

lemma configured_delay_40000:
  "configureEvent node_delay_40000 (Module_ctor (Some 0) 0 0) [] =
     (True, \<lparr>scripted = False, scriptId = 0, scriptInterface = Some 0,
             type = MODULE_TYPE_RECVBYTE, recvbyte = 10, delay = 40000, loaded = True\<rparr>, [])"
  by (simp add: configureEvent_def node_delay_40000_def node_recvbyte_def Module_ctor_def
      asLowerCaseString_def tolower_def)

lemma w_registered_eq:
  "registerEvent 0 w_configured = (True, w_configured\<lparr>recvbyteList := [10 \<mapsto> 0]\<rparr>)"
  by (simp add: registerEvent_def w_configured_def w_start_def configured_module
      getEventByRecvbyte_def)

lemma w_cleared_eq:
  "w_cleared =
     w_start\<lparr>heap := (heap w_start)
         (0 := \<lparr>scripted = False, scriptId = 0, scriptInterface = None,
                type = MODULE_TYPE_RECVBYTE, recvbyte = 10, delay = 0, loaded = False\<rparr>),
       recvbyteList := [10 \<mapsto> 0], luaStateInits := 2\<rparr>"
  by (simp add: w_cleared_def w_registered_def w_registered_eq clear_eq)
     (simp add: w_configured_def w_start_def configured_module clearEvent_def fun_eq_iff)

lemma keys_match_w_cleared: "keys_match w_cleared"
  by (simp add: keys_match_def w_cleared_eq w_start_def)

lemma keys_match_w_exhausted: "keys_match w_exhausted"
  by (simp add: keys_match_def w_exhausted_def)

section \<open>Dispatch\<close>

text \<open>
  C1: dispatch is claimed to invoke the handler at opcode \<open>k\<close> only if the entry is loaded,
  and to return silently otherwise. The condition of line 89 does not read \<open>loaded\<close>:
  configure \<open><module type="RecvByte" byte="10"/>\<close>, register it and clear the registry;
  the entry at opcode 10 is then unloaded with a null runtime, still of kind
  on-receive-byte. A message with opcode 10 from player 42 selects it and enters the
  bridge, which dereferences the null runtime instead of returning silently.
\<close>

theorem dispatch_invokes_unloaded_handler:
  "fst (configureEvent node_recvbyte (heap w_start 0) []) \<and>
   fst (registerEvent 0 w_configured) \<and>
   recvbyteList w_cleared 10 = Some 0 \<and>
   type (heap w_cleared 0) = MODULE_TYPE_RECVBYTE \<and>
   \<not> loaded (heap w_cleared 0) \<and>
   scriptInterface (heap w_cleared 0) = None \<and>
   executeOnRecvbyte 42 [] 10 w_cleared = Inl NullPointerDereference"
proof -
  have "executeOnRecvbyte 42 [] 10 w_cleared = Inl NullPointerDereference"
    by (simp add: executeOnRecvbyte_direct [OF keys_match_w_cleared])
       (simp add: w_cleared_eq w_start_def selects_def canRunModule_def invoke_def
         Module_executeOnRecvbyte_def reserveScriptEnv_def)
  then show ?thesis
    by (simp add: w_registered_eq) (simp add: w_cleared_eq w_start_def configured_module)
qed

text \<open>
  C2, as the code has it: when a dispatch selects a handler (the player resolves, the
  entry at the opcode is of kind on-receive-byte, the throttle permits) and no script
  environment is free, the error is logged and no script is called, but the throttle has
  already been armed with the handler's delay (line 90 runs before line 91); with a
  positive delay the throttle then refuses the same player and opcode at the same instant.
\<close>

theorem exhaustion_arms_throttle:
  assumes "keys_match w"
    and "players w playerId = Some player"
    and "recvbyteList w byte = Some a"
    and "type (heap w a) = MODULE_TYPE_RECVBYTE"
    and "canRunModule player byte (OTSYS_TIME w)"
    and "scriptEnvPool w \<le> scriptEnvIndex w"
  shows "executeOnRecvbyte playerId msg byte w =
           Inr (w\<lparr>players := (players w)
                    (playerId \<mapsto> setModuleDelay player byte (delay (heap w a)) (OTSYS_TIME w)),
                  logger := logger w @
                    [''Call stack overflow. Too many lua script calls being nested '' @
                     name player]\<rparr>) \<and>
         (0 < sint (delay (heap w a)) \<longrightarrow>
            \<not> canRunModule (setModuleDelay player byte (delay (heap w a)) (OTSYS_TIME w))
                 byte (OTSYS_TIME w))"
proof -
  have rb: "recvbyte (heap w a) = byte"
    using assms(1,3) by (simp add: keys_match_def)
  have "executeOnRecvbyte playerId msg byte w = invoke a playerId player msg w"
    using assms(2-5) rb by (simp add: executeOnRecvbyte_direct [OF assms(1)] selects_def)
  moreover have "invoke a playerId player msg w =
           Inr (w\<lparr>players := (players w)
                    (playerId \<mapsto> setModuleDelay player byte (delay (heap w a)) (OTSYS_TIME w)),
                  logger := logger w @
                    [''Call stack overflow. Too many lua script calls being nested '' @
                     name player]\<rparr>)"
    using assms(6) rb
    by (simp add: invoke_def Module_executeOnRecvbyte_def reserveScriptEnv_def Let_def
        setModuleDelay_def)
  ultimately show ?thesis
    by (simp add: canRunModule_def setModuleDelay_def)
qed

theorem exhaustion_arms_throttle_witness:
  "keys_match w_exhausted \<and>
   players w_exhausted 42 = Some \<lparr>name = ''Player'', moduleDelayMap = Map.empty\<rparr> \<and>
   recvbyteList w_exhausted 9 = Some 0 \<and>
   type (heap w_exhausted 0) = MODULE_TYPE_RECVBYTE \<and>
   canRunModule \<lparr>name = ''Player'', moduleDelayMap = Map.empty\<rparr> 9 (OTSYS_TIME w_exhausted) \<and>
   scriptEnvPool w_exhausted \<le> scriptEnvIndex w_exhausted \<and>
   executeOnRecvbyte 42 [] 9 w_exhausted =
     Inr (w_exhausted\<lparr>players :=
              [42 \<mapsto> \<lparr>name = ''Player'', moduleDelayMap = [9 \<mapsto> 1000]\<rparr>],
            logger := [''Call stack overflow. Too many lua script calls being nested Player'']\<rparr>) \<and>
   \<not> canRunModule \<lparr>name = ''Player'', moduleDelayMap = [9 \<mapsto> 1000]\<rparr> 9 0"
proof -
  have h2: "players w_exhausted 42 = Some \<lparr>name = ''Player'', moduleDelayMap = Map.empty\<rparr>"
    by (simp add: w_exhausted_def)
  have h3: "recvbyteList w_exhausted 9 = Some 0" by (simp add: w_exhausted_def)
  have h4: "type (heap w_exhausted 0) = MODULE_TYPE_RECVBYTE" by (simp add: w_exhausted_def)
  have h5: "canRunModule \<lparr>name = ''Player'', moduleDelayMap = Map.empty\<rparr> 9
              (OTSYS_TIME w_exhausted)"
    by (simp add: canRunModule_def)
  have h6: "scriptEnvPool w_exhausted \<le> scriptEnvIndex w_exhausted"
    by (simp add: w_exhausted_def)
  show ?thesis
    using exhaustion_arms_throttle [OF keys_match_w_exhausted h2 h3 h4 h5 h6, of "[]"]
      keys_match_w_exhausted h2 h3 h4 h5 h6
    by (simp add: w_exhausted_def setModuleDelay_def)
qed

text \<open>
  Against C2 as stated: in scenario S7's state the dispatch of opcode 9 for player 42
  finds no free environment, calls no script, and leaves the player's next-allowed time
  for opcode 9 at 1000; dispatched again at once, even with the pool free again, the
  message is dropped.
\<close>

theorem exhaustion_throttle_counterexample:
  "executeOnRecvbyte 42 [] 9 w_exhausted = Inr w_throttled \<and>
   players w_throttled 42 = Some \<lparr>name = ''Player'', moduleDelayMap = [9 \<mapsto> 1000]\<rparr> \<and>
   calls w_throttled = [] \<and>
   executeOnRecvbyte 42 [] 9 (w_throttled\<lparr>scriptEnvIndex := 0\<rparr>) =
     Inr (w_throttled\<lparr>scriptEnvIndex := 0\<rparr>)"
proof -
  have k': "keys_match (w_throttled\<lparr>scriptEnvIndex := 0\<rparr>)"
    by (simp add: keys_match_def w_exhausted_def w_throttled_def)
  have 1: "executeOnRecvbyte 42 [] 9 w_exhausted = Inr w_throttled"
    by (simp add: executeOnRecvbyte_direct [OF keys_match_w_exhausted])
       (simp add: w_exhausted_def w_throttled_def selects_def canRunModule_def invoke_def
         Module_executeOnRecvbyte_def reserveScriptEnv_def setModuleDelay_def)
  have 2: "executeOnRecvbyte 42 [] 9 (w_throttled\<lparr>scriptEnvIndex := 0\<rparr>) =
     Inr (w_throttled\<lparr>scriptEnvIndex := 0\<rparr>)"
    by (simp add: executeOnRecvbyte_direct [OF k'])
       (simp add: w_exhausted_def w_throttled_def selects_def canRunModule_def)
  show ?thesis using 1 2 by (simp add: w_throttled_def w_exhausted_def)
qed

section \<open>The handler record\<close>

text \<open>
  C3, as the code has it: a successful \<open>configureEvent\<close> sets \<open>loaded\<close> (and the kind)
  whatever the script binding, and no \<open>configureEvent\<close> touches \<open>scripted\<close> or \<open>scriptId\<close>;
  a failed one leaves \<open>loaded\<close> and the kind as they were. \<open>copyEvent\<close> takes \<open>loaded\<close>,
  \<open>scripted\<close> and \<open>scriptId\<close> together from the other record, and \<open>clearEvent\<close> resets
  all three.
\<close>

theorem loaded_set_by_configure:
  assumes "configureEvent node this log = (ok, this', log')"
  shows "scripted this' = scripted this \<and> scriptId this' = scriptId this \<and>
         (if ok then loaded this' \<and> type this' = MODULE_TYPE_RECVBYTE
          else loaded this' = loaded this \<and> type this' = type this) \<and>
         loaded (copyEvent m other) = loaded other \<and>
         scripted (copyEvent m other) = scripted other \<and>
         scriptId (copyEvent m other) = scriptId other \<and>
         \<not> loaded (clearEvent m) \<and> \<not> scripted (clearEvent m) \<and> scriptId (clearEvent m) = 0"
  using assms
  by (auto simp: configureEvent_def Let_def copyEvent_def clearEvent_def
      split: option.splits if_splits)

theorem loaded_set_by_configure_witness:
  "configureEvent node_recvbyte (Module_ctor (Some 0) 0 0) [] =
     (True, \<lparr>scripted = False, scriptId = 0, scriptInterface = Some 0,
             type = MODULE_TYPE_RECVBYTE, recvbyte = 10, delay = 0, loaded = True\<rparr>, []) \<and>
   loaded \<lparr>scripted = False, scriptId = 0, scriptInterface = Some 0,
           type = MODULE_TYPE_RECVBYTE, recvbyte = 10, delay = 0, loaded = True\<rparr> \<and>
   \<not> scripted \<lparr>scripted = False, scriptId = 0, scriptInterface = Some 0,
               type = MODULE_TYPE_RECVBYTE, recvbyte = 10, delay = 0, loaded = True\<rparr>"
  using loaded_set_by_configure [OF configured_module] configured_module
  by (simp add: Module_ctor_def)

text \<open>
  Against C3 as stated: a fresh record configured from
  \<open><module type="RecvByte" byte="10"/>\<close> is loaded, not scripted, and has script id 0.
\<close>

theorem loaded_without_script_counterexample:
  "fst (configureEvent node_recvbyte (Module_ctor (Some 0) 0 0) []) \<and>
   loaded (fst (snd (configureEvent node_recvbyte (Module_ctor (Some 0) 0 0) []))) \<and>
   \<not> scripted (fst (snd (configureEvent node_recvbyte (Module_ctor (Some 0) 0 0) []))) \<and>
   scriptId (fst (snd (configureEvent node_recvbyte (Module_ctor (Some 0) 0 0) []))) = 0"
  by (simp add: configured_module)

section \<open>Registration\<close>

text \<open>
  C4: when the entry at opcode \<open>k\<close> is an unloaded record of kind on-receive-byte,
  registering a handler of the same opcode and kind succeeds; the map is unchanged, so
  the entry at \<open>k\<close> is still the original object; that object now carries the new
  handler's script id, runtime, \<open>scripted\<close> and \<open>loaded\<close>, and keeps its own opcode, kind
  and delay; nothing else changes.
\<close>

theorem register_copy_bind:
  assumes "recvbyteList w k = Some old"
    and "\<not> loaded (heap w old)"
    and "type (heap w old) = MODULE_TYPE_RECVBYTE"
    and "recvbyte (heap w event) = k"
    and "type (heap w event) = MODULE_TYPE_RECVBYTE"
  shows "fst (registerEvent event w) \<and>
         recvbyteList (snd (registerEvent event w)) = recvbyteList w \<and>
         scriptId (heap (snd (registerEvent event w)) old) = scriptId (heap w event) \<and>
         scriptInterface (heap (snd (registerEvent event w)) old) =
           scriptInterface (heap w event) \<and>
         scripted (heap (snd (registerEvent event w)) old) = scripted (heap w event) \<and>
         loaded (heap (snd (registerEvent event w)) old) = loaded (heap w event) \<and>
         recvbyte (heap (snd (registerEvent event w)) old) = recvbyte (heap w old) \<and>
         type (heap (snd (registerEvent event w)) old) = type (heap w old) \<and>
         delay (heap (snd (registerEvent event w)) old) = delay (heap w old) \<and>
         snd (registerEvent event w) =
           w\<lparr>heap := (heap w)(old := copyEvent (heap w old) (heap w event))\<rparr>"
  using assms by (simp add: registerEvent_cases copyEvent_def)

theorem register_copy_bind_witness:
  "recvbyteList w_two_pass 7 = Some 0 \<and> \<not> loaded (heap w_two_pass 0) \<and>
   type (heap w_two_pass 0) = MODULE_TYPE_RECVBYTE \<and> recvbyte (heap w_two_pass 1) = 7 \<and>
   type (heap w_two_pass 1) = MODULE_TYPE_RECVBYTE \<and>
   fst (registerEvent 1 w_two_pass) \<and>
   recvbyteList (snd (registerEvent 1 w_two_pass)) 7 = Some 0 \<and>
   scriptId (heap (snd (registerEvent 1 w_two_pass)) 0) = 5 \<and>
   loaded (heap (snd (registerEvent 1 w_two_pass)) 0) \<and>
   delay (heap (snd (registerEvent 1 w_two_pass)) 0) = 250"
proof -
  have h: "recvbyteList w_two_pass 7 = Some 0" "\<not> loaded (heap w_two_pass 0)"
    "type (heap w_two_pass 0) = MODULE_TYPE_RECVBYTE" "recvbyte (heap w_two_pass 1) = 7"
    "type (heap w_two_pass 1) = MODULE_TYPE_RECVBYTE"
    by (simp_all add: w_two_pass_def)
  show ?thesis
    using register_copy_bind [OF h] h by (simp add: w_two_pass_def copyEvent_def)
qed

text \<open>
  C5: when the entry at opcode \<open>k\<close> is loaded, or its kind differs from the new handler's,
  registering a handler for \<open>k\<close> returns false and changes neither the map nor any record.
\<close>

theorem register_conflict_rejected:
  assumes "recvbyteList w k = Some old"
    and "recvbyte (heap w event) = k"
    and "loaded (heap w old) \<or> type (heap w old) \<noteq> type (heap w event)"
  shows "\<not> fst (registerEvent event w) \<and>
         recvbyteList (snd (registerEvent event w)) = recvbyteList w \<and>
         heap (snd (registerEvent event w)) = heap w"
  using assms by (auto simp: registerEvent_cases)

theorem register_conflict_rejected_witness:
  "recvbyteList w_exhausted 9 = Some 0 \<and> recvbyte (heap w_exhausted 1) = 9 \<and>
   loaded (heap w_exhausted 0) \<and>
   \<not> fst (registerEvent 1 w_exhausted) \<and>
   recvbyteList (snd (registerEvent 1 w_exhausted)) = [9 \<mapsto> 0] \<and>
   heap (snd (registerEvent 1 w_exhausted)) = heap w_exhausted"
proof -
  have h: "recvbyteList w_exhausted 9 = Some 0" "recvbyte (heap w_exhausted 1) = 9"
    "loaded (heap w_exhausted 0) \<or> type (heap w_exhausted 0) \<noteq> type (heap w_exhausted 1)"
    by (simp_all add: w_exhausted_def)
  show ?thesis
    using register_conflict_rejected [OF h] h(1,2) by (simp add: w_exhausted_def)
qed

section \<open>The delay attribute\<close>

text \<open>
  C6, as the code has it: the delay is the decoded unsigned value truncated to 16 bits
  and read as two's complement, so it lies between -32768 and 32767 and is negative when
  the value modulo 65536 is 32768 or more; it is 0 when the attribute is absent or
  configuration fails; \<open>copyEvent\<close> and \<open>clearEvent\<close> leave it alone.
\<close>

theorem delay_truncated:
  assumes "configureEvent node this log = (ok, this', log')"
  shows "(case node ''delay'' of
            None \<Rightarrow> sint (delay this') = 0
          | Some d \<Rightarrow>
              if ok then sint (delay this') =
                (if uint (as_uint d) mod 65536 < 32768 then uint (as_uint d) mod 65536
                 else uint (as_uint d) mod 65536 - 65536)
              else sint (delay this') = 0) \<and>
         - 32768 \<le> sint (delay this') \<and> sint (delay this') < 32768 \<and>
         delay (copyEvent m other) = delay m \<and> delay (clearEvent m) = delay m"
proof -
  have "(case node ''delay'' of
            None \<Rightarrow> sint (delay this') = 0
          | Some d \<Rightarrow>
              if ok then sint (delay this') =
                (if uint (as_uint d) mod 65536 < 32768 then uint (as_uint d) mod 65536
                 else uint (as_uint d) mod 65536 - 65536)
              else sint (delay this') = 0)"
    using assms
    by (auto simp: configureEvent_def Let_def sint_ucast_16 split: option.splits if_splits)
  then show ?thesis
    using sint_16_range [of "delay this'"] by (simp add: copyEvent_def clearEvent_def)
qed

theorem delay_truncated_witness:
  "configureEvent node_delay_40000 (Module_ctor (Some 0) 0 0) [] =
     (True, \<lparr>scripted = False, scriptId = 0, scriptInterface = Some 0,
             type = MODULE_TYPE_RECVBYTE, recvbyte = 10, delay = 40000, loaded = True\<rparr>, []) \<and>
   node_delay_40000 ''delay'' =
     Some \<lparr>as_string = ''40000'', as_int = 40000, as_uint = 40000\<rparr> \<and>
   sint (40000 :: 16 word) = 40000 - 65536"
proof -
  have d: "node_delay_40000 ''delay'' =
     Some \<lparr>as_string = ''40000'', as_int = 40000, as_uint = 40000\<rparr>"
    by (simp add: node_delay_40000_def)
  show ?thesis
    using delay_truncated [OF configured_delay_40000] configured_delay_40000 d by simp
qed

text \<open>
  Against C6 as stated: \<open><module type="RecvByte" byte="10" delay="40000"/>\<close> configures a
  record whose delay is -25536.
\<close>

theorem negative_delay_counterexample:
  "fst (configureEvent node_delay_40000 (Module_ctor (Some 0) 0 0) []) \<and>
   sint (delay (fst (snd (configureEvent node_delay_40000 (Module_ctor (Some 0) 0 0) [])))) =
     - 25536"
  by (simp add: configured_delay_40000)

section \<open>Clearing the registry\<close>

text \<open>
  C7: \<open>clear\<close> always returns; it keeps the map as it is, reinitialises the script runtime,
  and leaves every stored record unloaded, unscripted, with script id 0 and a null
  runtime, its opcode, kind and delay preserved; records that are not stored are
  untouched.
\<close>

theorem clear_unbinds_entries:
  "recvbyteList (clear w) = recvbyteList w \<and>
   luaStateInits (clear w) = Suc (luaStateInits w) \<and>
   (\<forall>k a. recvbyteList w k = Some a \<longrightarrow>
      \<not> loaded (heap (clear w) a) \<and> scriptId (heap (clear w) a) = 0 \<and>
      \<not> scripted (heap (clear w) a) \<and> scriptInterface (heap (clear w) a) = None \<and>
      recvbyte (heap (clear w) a) = recvbyte (heap w a) \<and>
      type (heap (clear w) a) = type (heap w a) \<and>
      delay (heap (clear w) a) = delay (heap w a)) \<and>
   (\<forall>a. (\<forall>k. recvbyteList w k \<noteq> Some a) \<longrightarrow> heap (clear w) a = heap w a)"
  by (subst (1 2 3 4 5 6 7 8 9 10) clear_eq) (auto simp: clearEvent_def)

theorem clear_unbinds_entries_witness:
  "recvbyteList w_two_pass 7 = Some 0 \<and>
   recvbyteList (clear w_two_pass) 7 = Some 0 \<and>
   luaStateInits (clear w_two_pass) = 2 \<and>
   \<not> loaded (heap (clear w_two_pass) 0) \<and>
   scriptId (heap (clear w_two_pass) 0) = 0 \<and>
   recvbyte (heap (clear w_two_pass) 0) = 7 \<and>
   delay (heap (clear w_two_pass) 0) = 250 \<and>
   heap (clear w_two_pass) 1 = heap w_two_pass 1"
proof -
  have h: "recvbyteList w_two_pass 7 = Some 0" by (simp add: w_two_pass_def)
  have n: "\<forall>k. recvbyteList w_two_pass k \<noteq> Some 1" by (simp add: w_two_pass_def)
  have s: "luaStateInits w_two_pass = 1" "recvbyte (heap w_two_pass 0) = 7"
    "delay (heap w_two_pass 0) = 250"
    by (simp_all add: w_two_pass_def w_start_def)
  from clear_unbinds_entries [of w_two_pass] h n s show ?thesis by auto
qed

section \<open>Failed configuration\<close>

text \<open>
  C8: for a fresh record (kind none, not loaded), when the node has no type attribute, or
  a type that is not "recvbyte" in any letter case, or type "recvbyte" and no byte
  attribute, \<open>configureEvent\<close> returns false and the record still has kind none and is not
  loaded; registering that record then logs the missing-type error and returns false.
\<close>

theorem failed_configure_rejected:
  assumes "type this = MODULE_TYPE_NONE" and "\<not> loaded this"
    and "node ''type'' = None \<or>
         (\<exists>t. node ''type'' = Some t \<and> asLowerCaseString (as_string t) \<noteq> ''recvbyte'') \<or>
         (\<exists>t. node ''type'' = Some t \<and> asLowerCaseString (as_string t) = ''recvbyte'' \<and>
              node ''byte'' = None)"
    and "heap w event = fst (snd (configureEvent node this log))"
  shows "\<not> fst (configureEvent node this log) \<and>
         type (fst (snd (configureEvent node this log))) = MODULE_TYPE_NONE \<and>
         \<not> loaded (fst (snd (configureEvent node this log))) \<and>
         registerEvent event w =
           (False, w\<lparr>logger := logger w @ [''Trying to register event without type!'']\<rparr>)"
proof -
  have c: "\<not> fst (configureEvent node this log) \<and>
        type (fst (snd (configureEvent node this log))) = MODULE_TYPE_NONE \<and>
         \<not> loaded (fst (snd (configureEvent node this log)))"
    using assms(1-3) by (auto simp: configureEvent_def Let_def)
  with assms(4) show ?thesis by (simp add: registerEvent_cases)
qed

theorem failed_configure_rejected_witness:
  "type (Module_ctor (Some 0) 0 0) = MODULE_TYPE_NONE \<and>
   \<not> loaded (Module_ctor (Some 0) 0 0) \<and>
   node_no_type ''type'' = None \<and>
   heap w_start 0 = fst (snd (configureEvent node_no_type (Module_ctor (Some 0) 0 0) [])) \<and>
   \<not> fst (configureEvent node_no_type (Module_ctor (Some 0) 0 0) []) \<and>
   registerEvent 0 w_start =
     (False, w_start\<lparr>logger := [''Trying to register event without type!'']\<rparr>)"
proof -
  have h1: "type (Module_ctor (Some 0) 0 0) = MODULE_TYPE_NONE"
    and h2: "\<not> loaded (Module_ctor (Some 0) 0 0)"
    by (simp_all add: Module_ctor_def)
  have h3: "node_no_type ''type'' = None" by (simp add: node_no_type_def)
  have h4: "heap w_start 0 =
      fst (snd (configureEvent node_no_type (Module_ctor (Some 0) 0 0) []))"
    by (simp add: w_start_def configureEvent_def h3 Module_ctor_def)
  show ?thesis
    using failed_configure_rejected [OF h1 h2 _ h4] h1 h2 h3 h4
    by (simp add: w_start_def)
qed

section \<open>Stability of the map\<close>

text \<open>
  C9: over any sequence of \<open>registerEvent\<close> and \<open>clear\<close>, an opcode that maps to a record
  keeps mapping to that same record. A successful \<open>registerEvent\<close> either inserts the new
  record under an opcode that was absent, changing nothing else, or leaves the map alone
  and copies the new record's binding into the record already stored there: that record's
  script id, runtime, \<open>scripted\<close> and \<open>loaded\<close> become the new record's, its opcode, kind
  and delay stay, and no other record changes. And whenever line 62 is reached (the kind
  is set and the lookup of line 53 found nothing) the opcode is absent from the map, so
  the overwriting assignment of line 64 is never run.
\<close>

theorem registry_keys_stable:
  "(recvbyteList w k = Some a \<longrightarrow> recvbyteList (run ops w) k = Some a) \<and>
   (fst (registerEvent event w) \<longrightarrow>
      (recvbyteList w (recvbyte (heap w event)) = None \<and>
       snd (registerEvent event w) =
         w\<lparr>recvbyteList := (recvbyteList w)(recvbyte (heap w event) \<mapsto> event)\<rparr>) \<or>
      (\<exists>old. recvbyteList w (recvbyte (heap w event)) = Some old \<and>
         recvbyteList (snd (registerEvent event w)) = recvbyteList w \<and>
         scriptId (heap (snd (registerEvent event w)) old) = scriptId (heap w event) \<and>
         scriptInterface (heap (snd (registerEvent event w)) old) =
           scriptInterface (heap w event) \<and>
         scripted (heap (snd (registerEvent event w)) old) = scripted (heap w event) \<and>
         loaded (heap (snd (registerEvent event w)) old) = loaded (heap w event) \<and>
         recvbyte (heap (snd (registerEvent event w)) old) = recvbyte (heap w old) \<and>
         type (heap (snd (registerEvent event w)) old) = type (heap w old) \<and>
         delay (heap (snd (registerEvent event w)) old) = delay (heap w old) \<and>
         (\<forall>b. b \<noteq> old \<longrightarrow> heap (snd (registerEvent event w)) b = heap w b))) \<and>
   (type (heap w event) \<noteq> MODULE_TYPE_NONE \<longrightarrow>
    getEventByRecvbyte (recvbyte (heap w event)) False w = None \<longrightarrow>
      recvbyteList w (recvbyte (heap w event)) = None)"
proof -
  have 1: "recvbyteList w k = Some a \<longrightarrow> recvbyteList (run ops w) k = Some a"
    by (simp add: run_keeps_entries)
  have 2: "fst (registerEvent event w) \<longrightarrow>
      (recvbyteList w (recvbyte (heap w event)) = None \<and>
       snd (registerEvent event w) =
         w\<lparr>recvbyteList := (recvbyteList w)(recvbyte (heap w event) \<mapsto> event)\<rparr>) \<or>
      (\<exists>old. recvbyteList w (recvbyte (heap w event)) = Some old \<and>
         recvbyteList (snd (registerEvent event w)) = recvbyteList w \<and>
         scriptId (heap (snd (registerEvent event w)) old) = scriptId (heap w event) \<and>
         scriptInterface (heap (snd (registerEvent event w)) old) =
           scriptInterface (heap w event) \<and>
         scripted (heap (snd (registerEvent event w)) old) = scripted (heap w event) \<and>
         loaded (heap (snd (registerEvent event w)) old) = loaded (heap w event) \<and>
         recvbyte (heap (snd (registerEvent event w)) old) = recvbyte (heap w old) \<and>
         type (heap (snd (registerEvent event w)) old) = type (heap w old) \<and>
         delay (heap (snd (registerEvent event w)) old) = delay (heap w old) \<and>
         (\<forall>b. b \<noteq> old \<longrightarrow> heap (snd (registerEvent event w)) b = heap w b))"
    by (cases "recvbyteList w (recvbyte (heap w event))")
       (auto simp: registerEvent_cases copyEvent_def split: if_splits)
  have 3: "type (heap w event) \<noteq> MODULE_TYPE_NONE \<longrightarrow>
    getEventByRecvbyte (recvbyte (heap w event)) False w = None \<longrightarrow>
      recvbyteList w (recvbyte (heap w event)) = None"
    by (simp add: getEventByRecvbyte_no_force)
  from 1 2 3 show ?thesis by blast
qed

theorem registry_keys_stable_witness:
  "recvbyteList w_two_pass 7 = Some 0 \<and>
   recvbyteList (run [Clear, RegisterEvent 1, RegisterEvent 0] w_two_pass) 7 = Some 0 \<and>
   fst (registerEvent 1 w_two_pass) \<and>
   recvbyteList w_two_pass (recvbyte (heap w_two_pass 1)) = Some 0 \<and>
   recvbyteList (snd (registerEvent 1 w_two_pass)) = [7 \<mapsto> 0] \<and>
   scriptId (heap (snd (registerEvent 1 w_two_pass)) 0) = 5 \<and>
   scriptInterface (heap (snd (registerEvent 1 w_two_pass)) 0) = Some 0 \<and>
   scripted (heap (snd (registerEvent 1 w_two_pass)) 0) \<and>
   loaded (heap (snd (registerEvent 1 w_two_pass)) 0) \<and>
   delay (heap (snd (registerEvent 1 w_two_pass)) 0) = 250 \<and>
   heap (snd (registerEvent 1 w_two_pass)) 1 = heap w_two_pass 1 \<and>
   type (heap w_configured 0) \<noteq> MODULE_TYPE_NONE \<and>
   getEventByRecvbyte (recvbyte (heap w_configured 0)) False w_configured = None \<and>
   recvbyteList w_configured (recvbyte (heap w_configured 0)) = None"
proof -
  have h: "recvbyteList w_two_pass 7 = Some 0" "recvbyte (heap w_two_pass 1) = 7"
    by (simp_all add: w_two_pass_def)
  have v: "recvbyteList w_two_pass = [7 \<mapsto> 0]" "scriptId (heap w_two_pass 1) = 5"
    "scriptInterface (heap w_two_pass 1) = Some 0" "scripted (heap w_two_pass 1)"
    "loaded (heap w_two_pass 1)" "delay (heap w_two_pass 0) = 250"
    by (simp_all add: w_two_pass_def)
  have r: "fst (registerEvent 1 w_two_pass)"
    by (simp add: registerEvent_cases w_two_pass_def)
  have c: "type (heap w_configured 0) \<noteq> MODULE_TYPE_NONE"
    "getEventByRecvbyte (recvbyte (heap w_configured 0)) False w_configured = None"
    by (simp_all add: w_configured_def w_start_def configured_module getEventByRecvbyte_def)
  note t = registry_keys_stable [where w = w_two_pass and k = 7 and a = 0
      and ops = "[Clear, RegisterEvent 1, RegisterEvent 0]" and event = 1]
  from t h have 1:
    "recvbyteList (run [Clear, RegisterEvent 1, RegisterEvent 0] w_two_pass) 7 = Some 0"
    by blast
  from t r h have 2:
    "recvbyteList (snd (registerEvent 1 w_two_pass)) = recvbyteList w_two_pass \<and>
     scriptId (heap (snd (registerEvent 1 w_two_pass)) 0) = scriptId (heap w_two_pass 1) \<and>
     scriptInterface (heap (snd (registerEvent 1 w_two_pass)) 0) =
       scriptInterface (heap w_two_pass 1) \<and>
     scripted (heap (snd (registerEvent 1 w_two_pass)) 0) = scripted (heap w_two_pass 1) \<and>
     loaded (heap (snd (registerEvent 1 w_two_pass)) 0) = loaded (heap w_two_pass 1) \<and>
     delay (heap (snd (registerEvent 1 w_two_pass)) 0) = delay (heap w_two_pass 0) \<and>
     heap (snd (registerEvent 1 w_two_pass)) 1 = heap w_two_pass 1"
    by auto
  from registry_keys_stable [where w = w_configured and event = 0] c
  have 3: "recvbyteList w_configured (recvbyte (heap w_configured 0)) = None" by blast
  show ?thesis using h r c 1 2 3 v by simp
qed

section \<open>Userdata strength in the bridge\<close>

text \<open>
  C10: every bridge invocation either finds no free environment (it logs and calls
  nothing), or dereferences a null runtime, or makes one script call whose stack is the
  function, the player as a userdata with the metatable "Player" set by \<open>setMetatable\<close>,
  the message as a userdata with the metatable "NetworkMessage" set by
  \<open>setWeakMetatable\<close>, and the opcode. In every script call the bridge makes, the script
  shares ownership of the player and not of the message: a player with no other owner
  left is live during the call, and the message is live exactly as long as its other
  owners hold it, so with none left the buffer is free to go.
\<close>

theorem bridge_userdata_strength:
  "Module_executeOnRecvbyte this playerId player msg w =
     (if scriptEnvPool w \<le> scriptEnvIndex w
      then Inr (w\<lparr>logger := logger w @
                 [''Call stack overflow. Too many lua script calls being nested '' @
                  name player]\<rparr>)
      else case scriptInterface this of
        None \<Rightarrow> Inl NullPointerDereference
      | Some si \<Rightarrow>
          Inr (w\<lparr>calls := calls w @
                 [\<lparr>call_interface = si, call_env = (scriptId this, Some si),
                   call_stack =
                     [Function (scriptId this),
                      Userdata (PlayerRef playerId) (Some (Metatable ''Player'')),
                      Userdata (NetworkMessageRef msg) (Some (WeakMetatable ''NetworkMessage'')),
                      Number (unat (recvbyte this))],
                   call_params = 3\<rparr>]\<rparr>)) \<and>
   (\<forall>w' c. Module_executeOnRecvbyte this playerId player msg w = Inr w' \<longrightarrow>
      calls w' = calls w @ [c] \<longrightarrow>
        script_owns c (PlayerRef playerId) \<and>
        \<not> script_owns c (NetworkMessageRef msg) \<and>
        live [] c (PlayerRef playerId) \<and>
        \<not> live [] c (NetworkMessageRef msg) \<and>
        live owners c (NetworkMessageRef msg) = List.member owners (NetworkMessageRef msg))"
proof -
  have 1: "Module_executeOnRecvbyte this playerId player msg w =
     (if scriptEnvPool w \<le> scriptEnvIndex w
      then Inr (w\<lparr>logger := logger w @
                 [''Call stack overflow. Too many lua script calls being nested '' @
                  name player]\<rparr>)
      else case scriptInterface this of
        None \<Rightarrow> Inl NullPointerDereference
      | Some si \<Rightarrow>
          Inr (w\<lparr>calls := calls w @
                 [\<lparr>call_interface = si, call_env = (scriptId this, Some si),
                   call_stack =
                     [Function (scriptId this),
                      Userdata (PlayerRef playerId) (Some (Metatable ''Player'')),
                      Userdata (NetworkMessageRef msg) (Some (WeakMetatable ''NetworkMessage'')),
                      Number (unat (recvbyte this))],
                   call_params = 3\<rparr>]\<rparr>))"
    by (cases w)
       (simp add: Module_executeOnRecvbyte_def reserveScriptEnv_def callVoidFunction_def
         pushFunction_def pushUserdata_def lua_pushnumber_def Let_def split: option.splits)
  have 2: "script_owns c (PlayerRef playerId) \<and>
        \<not> script_owns c (NetworkMessageRef msg) \<and>
        live [] c (PlayerRef playerId) \<and>
        \<not> live [] c (NetworkMessageRef msg) \<and>
        live owners c (NetworkMessageRef msg) = List.member owners (NetworkMessageRef msg)"
    if r: "Module_executeOnRecvbyte this playerId player msg w = Inr w'"
      and c: "calls w' = calls w @ [c]" for w' c
  proof -
    have "call_stack c =
            [Function (scriptId this),
             Userdata (PlayerRef playerId) (Some (Metatable ''Player'')),
             Userdata (NetworkMessageRef msg) (Some (WeakMetatable ''NetworkMessage'')),
             Number (unat (recvbyte this))]"
      using r c unfolding 1 by (auto split: if_splits option.splits)
    then show ?thesis by (simp add: script_owns_def live_def)
  qed
  from 1 2 show ?thesis by blast
qed

theorem bridge_userdata_strength_witness:
  "Module_executeOnRecvbyte (heap w_bound 0) 42 \<lparr>name = ''Player'', moduleDelayMap = Map.empty\<rparr>
      [1, 2] w_bound =
     Inr (w_bound\<lparr>calls :=
        [\<lparr>call_interface = 0, call_env = (1, Some 0),
          call_stack =
            [Function 1, Userdata (PlayerRef 42) (Some (Metatable ''Player'')),
             Userdata (NetworkMessageRef [1, 2]) (Some (WeakMetatable ''NetworkMessage'')),
             Number 9],
          call_params = 3\<rparr>]\<rparr>) \<and>
   script_owns
     \<lparr>call_interface = 0, call_env = (1, Some 0),
      call_stack =
        [Function 1, Userdata (PlayerRef 42) (Some (Metatable ''Player'')),
         Userdata (NetworkMessageRef [1, 2]) (Some (WeakMetatable ''NetworkMessage'')),
         Number 9],
      call_params = 3\<rparr> (PlayerRef 42) \<and>
   \<not> live []
     \<lparr>call_interface = 0, call_env = (1, Some 0),
      call_stack =
        [Function 1, Userdata (PlayerRef 42) (Some (Metatable ''Player'')),
         Userdata (NetworkMessageRef [1, 2]) (Some (WeakMetatable ''NetworkMessage'')),
         Number 9],
      call_params = 3\<rparr> (NetworkMessageRef [1, 2])"
proof -
  let ?c = "\<lparr>call_interface = 0, call_env = (1, Some 0),
      call_stack =
        [Function 1, Userdata (PlayerRef 42) (Some (Metatable ''Player'')),
         Userdata (NetworkMessageRef [1, 2]) (Some (WeakMetatable ''NetworkMessage'')),
         Number 9],
      call_params = 3\<rparr>"
  let ?p = "\<lparr>name = ''Player'', moduleDelayMap = Map.empty\<rparr>"
  note t = bridge_userdata_strength [where this = "heap w_bound 0" and playerId = 42 and player = ?p
      and msg = "[1, 2]" and w = w_bound and owners = "[]"]
  have s: "scriptEnvPool w_bound \<le> scriptEnvIndex w_bound \<longleftrightarrow> False"
    "scriptInterface (heap w_bound 0) = Some 0" "scriptId (heap w_bound 0) = 1"
    "recvbyte (heap w_bound 0) = 9" "calls w_bound = []"
    by (simp_all add: w_bound_def w_exhausted_def)
  have r: "Module_executeOnRecvbyte (heap w_bound 0) 42 ?p [1, 2] w_bound =
             Inr (w_bound\<lparr>calls := [?c]\<rparr>)"
    using t [THEN conjunct1] by (simp add: s)
  have "calls (w_bound\<lparr>calls := [?c]\<rparr>) = calls w_bound @ [?c]" by (simp add: s)
  with t [THEN conjunct2, rule_format, OF r]
  have "script_owns ?c (PlayerRef 42) \<and> \<not> live [] ?c (NetworkMessageRef [1, 2])" by blast
  with r show ?thesis by simp
qed

end
